theory Spec2Isabelle
  imports Main
begin

section \<open>Drawing state: the per-room operation history\<close>

text \<open>
  The class \<open>DrawingState\<close> keeps an array of stored operations and an index into it.
  A stored operation is the object handed to \<open>addOperation\<close>, copied, with the two
  fields \<open>id\<close> and \<open>timestamp\<close> written over it. The fields of the handed object are
  kept abstract as \<open>payload\<close>. JavaScript numbers are modelled as \<open>int\<close>: every value
  here is an array length or an index.
\<close>

record 'a operation =
  payload :: 'a
  op_id :: int
  timestamp :: int

record 'a DrawingState =
  roomId :: string
  operations :: "'a operation list"
  currentIndex :: int

text \<open>The constructor: an empty history, the index at \<open>-1\<close>.\<close>

definition new_DrawingState :: "string \<Rightarrow> 'a DrawingState" where
  "new_DrawingState r = \<lparr>roomId = r, operations = [], currentIndex = -1\<rparr>"

text \<open>
  \<open>Array.prototype.splice(start)\<close> with one argument removes every element from the
  relative start on: a negative start counts from the end and is clamped at 0, a start
  beyond the length is clamped at the length. What stays in the array is returned here.
\<close>

definition js_splice_from :: "int \<Rightarrow> 'b list \<Rightarrow> 'b list" where
  "js_splice_from start xs =
     (let len = int (length xs);
          rel = (if start < 0 then max (len + start) 0 else min start len)
      in take (nat rel) xs)"

text \<open>
  \<open>Array.prototype.slice(0, end)\<close>: a fresh array of the elements before the relative
  end, with the same clamping of \<open>end\<close>.
\<close>

definition js_slice_to :: "int \<Rightarrow> 'b list \<Rightarrow> 'b list" where
  "js_slice_to end xs =
     (let len = int (length xs);
          rel = (if end < 0 then max (len + end) 0 else min end len)
      in take (nat rel) xs)"

text \<open>
  Reading \<open>xs[i]\<close>: outside the array the value is \<open>undefined\<close>, modelled as \<open>None\<close>.
\<close>

definition js_index :: "'b list \<Rightarrow> int \<Rightarrow> 'b option" where
  "js_index xs i = (if 0 \<le> i \<and> i < int (length xs) then Some (xs ! nat i) else None)"

text \<open>
  \<open>addOperation(operation)\<close>; the extra argument \<open>now\<close> is the value of \<open>Date.now()\<close>.
  The result is the returned id and the state after the call.
\<close>

definition addOperation :: "'a \<Rightarrow> int \<Rightarrow> 'a DrawingState \<Rightarrow> int \<times> 'a DrawingState" where
  "addOperation operation now s =
     (let ops1 = (if currentIndex s < int (length (operations s)) - 1
                  then js_splice_from (currentIndex s + 1) (operations s)
                  else operations s);
          opWithMetadata = \<lparr>payload = operation, op_id = int (length ops1), timestamp = now\<rparr>
      in (op_id opWithMetadata,
          s\<lparr>operations := ops1 @ [opWithMetadata], currentIndex := currentIndex s + 1\<rparr>))"

text \<open>
  The object returned by a successful \<open>undo\<close> or \<open>redo\<close>; its field \<open>type\<close> is \<open>rtype\<close>
  here.
\<close>

record 'a history_result =
  rtype :: string
  operation :: "'a operation option"
  newIndex :: int

definition undo :: "'a DrawingState \<Rightarrow> 'a history_result option \<times> 'a DrawingState" where
  "undo s =
     (if currentIndex s < 0 then (None, s)
      else (let opn = js_index (operations s) (currentIndex s);
                s' = s\<lparr>currentIndex := currentIndex s - 1\<rparr>
            in (Some \<lparr>rtype = ''undo'', operation = opn, newIndex = currentIndex s'\<rparr>, s')))"

definition redo :: "'a DrawingState \<Rightarrow> 'a history_result option \<times> 'a DrawingState" where
  "redo s =
     (if currentIndex s \<ge> int (length (operations s)) - 1 then (None, s)
      else (let s' = s\<lparr>currentIndex := currentIndex s + 1\<rparr>;
                opn = js_index (operations s') (currentIndex s')
            in (Some \<lparr>rtype = ''redo'', operation = opn, newIndex = currentIndex s'\<rparr>, s')))"

definition getActiveOperations :: "'a DrawingState \<Rightarrow> 'a operation list" where
  "getActiveOperations s = js_slice_to (currentIndex s + 1) (operations s)"

text \<open>
  \<open>getFullState()\<close> builds a fresh object and assigns no field of the log; the state after
  the call is returned with the result so that this can be stated.
\<close>

record 'a full_state =
  fs_operations :: "'a operation list"
  fs_currentIndex :: int

definition getFullState :: "'a DrawingState \<Rightarrow> 'a full_state \<times> 'a DrawingState" where
  "getFullState s =
     (\<lparr>fs_operations = getActiveOperations s, fs_currentIndex = currentIndex s\<rparr>, s)"

definition clear :: "'a DrawingState \<Rightarrow> 'a DrawingState" where
  "clear s = s\<lparr>operations := [], currentIndex := -1\<rparr>"

text \<open>The domain of the index given by the data model.\<close>

definition index_bounds :: "'a DrawingState \<Rightarrow> bool" where
  "index_bounds s \<longleftrightarrow> -1 \<le> currentIndex s \<and> currentIndex s \<le> int (length (operations s)) - 1"

text \<open>Sequences of calls on one log, starting from the constructor.\<close>

datatype 'a call = AddOperation 'a int | Undo | Redo | Clear

fun step :: "'a call \<Rightarrow> 'a DrawingState \<Rightarrow> 'a DrawingState" where
  "step (AddOperation opn now) s = snd (addOperation opn now s)"
| "step Undo s = snd (undo s)"
| "step Redo s = snd (redo s)"
| "step Clear s = clear s"

definition run :: "'a call list \<Rightarrow> 'a DrawingState \<Rightarrow> 'a DrawingState" where
  "run cs s = fold step cs s"

section \<open>Room manager: rooms, rosters and the clean-up of empty rooms\<close>

text \<open>
  A JavaScript \<open>Map\<close> keeps its entries in insertion order: \<open>set\<close> on a key that is
  present replaces the value where it stands, \<open>set\<close> on a new key appends, \<open>delete\<close>
  removes the entry. The roster is such a map, modelled as an association list whose keys are
  distinct, so that \<open>size\<close> is the length of the list.
\<close>

fun map_set :: "'k \<Rightarrow> 'v \<Rightarrow> ('k \<times> 'v) list \<Rightarrow> ('k \<times> 'v) list" where
  "map_set k v [] = [(k, v)]"
| "map_set k v (p # ps) = (if fst p = k then (k, v) # ps else p # map_set k v ps)"

definition map_delete :: "'k \<Rightarrow> ('k \<times> 'v) list \<Rightarrow> ('k \<times> 'v) list" where
  "map_delete k ps = filter (\<lambda>p. fst p \<noteq> k) ps"

definition map_size :: "('k \<times> 'v) list \<Rightarrow> nat" where
  "map_size ps = length ps"

definition map_values :: "('k \<times> 'v) list \<Rightarrow> 'v list" where
  "map_values ps = map snd ps"

text \<open>
  A number inside a template literal is written in decimal.
\<close>

definition digit :: "nat \<Rightarrow> char" where
  "digit d = ''0123456789'' ! d"

function string_of_nat :: "nat \<Rightarrow> string" where
  "string_of_nat n =
     (if n < 10 then [digit n] else string_of_nat (n div 10) @ [digit (n mod 10)])"
  by pat_completeness auto
termination
  by (relation "measure (\<lambda>n. n)") auto

declare string_of_nat.simps [simp del]

record user =
  user_id :: string
  username :: string
  color :: string
  cursor :: "int \<times> int"
  joinedAt :: int

record 'a room =
  room_id :: string
  users :: "(string \<times> user) list"
  drawingState :: "'a DrawingState"
  createdAt :: int

text \<open>
  The state of the manager is the map \<open>rooms\<close>. The callbacks handed to \<open>setTimeout\<close> and
  not yet run belong to the runtime; they are kept beside it in \<open>pendingTimeouts\<close>, oldest
  first, each as the time from which the runtime may run it and the room id its closure holds.
  The palette \<open>userColors\<close> is assigned once by the constructor and never written again, so
  it is a constant.
\<close>

record 'a RoomManager =
  rooms :: "string \<rightharpoonup> 'a room"
  pendingTimeouts :: "(int \<times> string) list"

definition userColors :: "string list" where
  "userColors =
     [''#FF6B6B'', ''#4ECDC4'', ''#45B7D1'', ''#FFA07A'',
      ''#98D8C8'', ''#F7DC6F'', ''#BB8FCE'', ''#85C1E2'',
      ''#F8B739'', ''#52B788'']"

definition new_RoomManager :: "'a RoomManager" where
  "new_RoomManager = \<lparr>rooms = Map.empty, pendingTimeouts = []\<rparr>"

text \<open>
  In every function below \<open>now\<close> is the value of \<open>Date.now()\<close> during the call.
\<close>

definition getRoom :: "int \<Rightarrow> string \<Rightarrow> 'a RoomManager \<Rightarrow> 'a room \<times> 'a RoomManager" where
  "getRoom now rid m =
     (case rooms m rid of
        Some room \<Rightarrow> (room, m)
      | None \<Rightarrow>
          (let room = \<lparr>room_id = rid, users = [], drawingState = new_DrawingState rid,
                        createdAt = now\<rparr>
           in (room, m\<lparr>rooms := (rooms m)(rid \<mapsto> room)\<rparr>)))"

text \<open>
  The display name is absent (\<open>None\<close>) or a string; \<open>username || ...\<close> takes the default
  for an absent name and for the empty string.
\<close>

definition addUserToRoom ::
  "int \<Rightarrow> string \<Rightarrow> string \<Rightarrow> string option \<Rightarrow> 'a RoomManager \<Rightarrow> user \<times> 'a RoomManager" where
  "addUserToRoom now rid socketId uname m =
     (let (room, m1) = getRoom now rid m;
          colorIndex = map_size (users room) mod length userColors;
          usr = \<lparr>user_id = socketId,
                 username = (case uname of
                               None \<Rightarrow> ''User'' @ string_of_nat (map_size (users room) + 1)
                             | Some u \<Rightarrow>
                                 if u = [] then ''User'' @ string_of_nat (map_size (users room) + 1)
                                 else u),
                 color = userColors ! colorIndex,
                 cursor = (0, 0),
                 joinedAt = now\<rparr>
      in (usr, m1\<lparr>rooms := (rooms m1)(rid \<mapsto> room\<lparr>users := map_set socketId usr (users room)\<rparr>)\<rparr>))"

text \<open>
  \<open>removeUserFromRoom\<close>: when the roster is empty after the removal, a callback is handed to
  \<open>setTimeout\<close> with a delay of five minutes.
\<close>

definition removeUserFromRoom :: "int \<Rightarrow> string \<Rightarrow> string \<Rightarrow> 'a RoomManager \<Rightarrow> 'a RoomManager" where
  "removeUserFromRoom now rid socketId m =
     (case rooms m rid of
        None \<Rightarrow> m
      | Some room \<Rightarrow>
          (let room' = room\<lparr>users := map_delete socketId (users room)\<rparr>;
               m1 = m\<lparr>rooms := (rooms m)(rid \<mapsto> room')\<rparr>
           in if map_size (users room') = 0
              then m1\<lparr>pendingTimeouts := pendingTimeouts m1 @ [(now + 5 * 60 * 1000, rid)]\<rparr>
              else m1))"

text \<open>The body of the callback, for the room id it captured.\<close>

definition cleanupCallback :: "string \<Rightarrow> 'a RoomManager \<Rightarrow> 'a RoomManager" where
  "cleanupCallback rid m =
     (case rooms m rid of
        None \<Rightarrow> m
      | Some currentRoom \<Rightarrow>
          if map_size (users currentRoom) = 0 then m\<lparr>rooms := (rooms m)(rid := None)\<rparr> else m)"

text \<open>
  The runtime runs the oldest pending callback, never before its time; \<open>None\<close> when there
  is nothing it may run at \<open>now\<close>.
\<close>

definition fireTimeout :: "int \<Rightarrow> 'a RoomManager \<Rightarrow> 'a RoomManager option" where
  "fireTimeout now m =
     (case pendingTimeouts m of
        [] \<Rightarrow> None
      | (due, rid) # rest \<Rightarrow>
          if due \<le> now then Some (cleanupCallback rid (m\<lparr>pendingTimeouts := rest\<rparr>)) else None)"

text \<open>
  \<open>getUser\<close> answers \<open>null\<close> for an unknown room, and what \<open>Map.get\<close> answers otherwise:
  \<open>undefined\<close> for an unknown socket id.
\<close>

datatype 'b js_lookup = JsNull | JsUndefined | JsValue 'b

definition getUser :: "string \<Rightarrow> string \<Rightarrow> 'a RoomManager \<Rightarrow> user js_lookup" where
  "getUser rid socketId m =
     (case rooms m rid of
        None \<Rightarrow> JsNull
      | Some room \<Rightarrow>
          (case map_of (users room) socketId of None \<Rightarrow> JsUndefined | Some u \<Rightarrow> JsValue u))"

definition getRoomUsers :: "string \<Rightarrow> 'a RoomManager \<Rightarrow> user list" where
  "getRoomUsers rid m =
     (case rooms m rid of None \<Rightarrow> [] | Some room \<Rightarrow> map_values (users room))"

text \<open>
  \<open>updateUserCursor\<close> assigns the field of the user object held by the roster.
\<close>

definition updateUserCursor ::
  "string \<Rightarrow> string \<Rightarrow> int \<times> int \<Rightarrow> 'a RoomManager \<Rightarrow> 'a RoomManager" where
  "updateUserCursor rid socketId c m =
     (case getUser rid socketId m of
        JsValue u \<Rightarrow>
          (case rooms m rid of
             None \<Rightarrow> m
           | Some room \<Rightarrow>
               m\<lparr>rooms := (rooms m)(rid \<mapsto>
                    room\<lparr>users := map_set socketId (u\<lparr>cursor := c\<rparr>) (users room)\<rparr>)\<rparr>)
      | _ \<Rightarrow> m)"

definition getDrawingState ::
  "int \<Rightarrow> string \<Rightarrow> 'a RoomManager \<Rightarrow> 'a DrawingState \<times> 'a RoomManager" where
  "getDrawingState now rid m = (let (room, m1) = getRoom now rid m in (drawingState room, m1))"

text \<open>
  The server calls the methods of the log on the object \<open>getDrawingState\<close> returns, which is
  the object the room holds: the room sees the change. \<open>onDrawingState now rid f\<close> is such a
  call of the method \<open>f\<close>.
\<close>

definition onDrawingState ::
  "int \<Rightarrow> string \<Rightarrow> ('a DrawingState \<Rightarrow> 'r \<times> 'a DrawingState) \<Rightarrow> 'a RoomManager
     \<Rightarrow> 'r \<times> 'a RoomManager" where
  "onDrawingState now rid f m =
     (let (room, m1) = getRoom now rid m;
          (res, ds) = f (drawingState room)
      in (res, m1\<lparr>rooms := (rooms m1)(rid \<mapsto> room\<lparr>drawingState := ds\<rparr>)\<rparr>))"

text \<open>The size of a room's roster, 0 for a room that does not exist yet.\<close>

definition rosterSize :: "'a RoomManager \<Rightarrow> string \<Rightarrow> nat" where
  "rosterSize m rid = (case rooms m rid of None \<Rightarrow> 0 | Some room \<Rightarrow> map_size (users room))"

text \<open>
  In a log built by the calls, the stored operation at position \<open>i\<close> carries the id \<open>i\<close>.
\<close>

definition ids_are_positions :: "'a DrawingState \<Rightarrow> bool" where
  "ids_are_positions s \<longleftrightarrow> map op_id (operations s) = map int [0..<length (operations s)]"

section \<open>Properties of the operation history\<close>

subsection \<open>The index stays inside the history\<close>

lemma addOperation_index_bounds:
  "index_bounds s \<Longrightarrow> index_bounds (snd (addOperation opn now s))"
  by (auto simp: index_bounds_def addOperation_def js_splice_from_def Let_def)

lemma undo_index_bounds: "index_bounds s \<Longrightarrow> index_bounds (snd (undo s))"
  by (auto simp: index_bounds_def undo_def Let_def)

lemma redo_index_bounds: "index_bounds s \<Longrightarrow> index_bounds (snd (redo s))"
  by (auto simp: index_bounds_def redo_def Let_def)

lemma clear_index_bounds: "index_bounds (clear s)"
  by (simp add: index_bounds_def clear_def)

lemma step_index_bounds: "index_bounds s \<Longrightarrow> index_bounds (step c s)"
  by (cases c)
    (simp_all add: addOperation_index_bounds undo_index_bounds redo_index_bounds
      clear_index_bounds)

lemma run_index_bounds: "index_bounds s \<Longrightarrow> index_bounds (run cs s)"
  unfolding run_def
  by (induction cs arbitrary: s) (simp_all add: step_index_bounds)

lemma new_index_bounds: "index_bounds (new_DrawingState r)"
  by (simp add: index_bounds_def new_DrawingState_def)

text \<open>
  C2: every log reached from the constructor by calls of \<open>addOperation\<close>, \<open>undo\<close>, \<open>redo\<close>
  and \<open>clear\<close>, in any number and order, has \<open>-1 \<le> currentIndex \<le> length operations - 1\<close>.
  The sequence of calls is arbitrary, so this is the state after every call of a sequence.
\<close>

theorem index_bounds_reachable:
  "-1 \<le> currentIndex (run cs (new_DrawingState r)) \<and>
   currentIndex (run cs (new_DrawingState r))
     \<le> int (length (operations (run cs (new_DrawingState r)))) - 1"
  using run_index_bounds [OF new_index_bounds, of cs r]
  by (simp add: index_bounds_def)

subsection \<open>Adding after an undo\<close>

text \<open>
  C1: on a log whose index is within its domain and strictly below the last position,
  \<open>addOperation\<close> keeps the first \<open>currentIndex + 1\<close> operations, appends the new one and
  leaves the index on the last position. From the log \<open>[A, B, C]\<close> with index 2, two undos
  and the addition of \<open>D\<close> give the log \<open>[A, D]\<close> with index 1, where \<open>D\<close> is stored with
  the id 1 and the time of the call.
\<close>

theorem addOperation_truncates_future:
  "(index_bounds s \<and> currentIndex s < int (length (operations s)) - 1 \<longrightarrow>
     operations (snd (addOperation opn now s)) =
       take (nat (currentIndex s + 1)) (operations s)
         @ [\<lparr>payload = opn, op_id = currentIndex s + 1, timestamp = now\<rparr>] \<and>
     currentIndex (snd (addOperation opn now s)) =
       int (length (operations (snd (addOperation opn now s)))) - 1 \<and>
     fst (addOperation opn now s) = currentIndex s + 1) \<and>
   (let s0 = \<lparr>roomId = r, operations = [A, B, C], currentIndex = 2\<rparr>;
        s1 = snd (undo s0);
        s2 = snd (undo s1);
        s3 = snd (addOperation D t s2)
    in operations s3 = [A, \<lparr>payload = D, op_id = 1, timestamp = t\<rparr>] \<and> currentIndex s3 = 1)"
proof (intro conjI impI)
  assume dom: "index_bounds s \<and> currentIndex s < int (length (operations s)) - 1"
  then have lo: "0 \<le> currentIndex s + 1"
    and hi: "currentIndex s + 1 < int (length (operations s))"
    by (simp_all add: index_bounds_def)
  from lo hi have kept: "js_splice_from (currentIndex s + 1) (operations s) =
      take (nat (currentIndex s + 1)) (operations s)"
    by (simp add: js_splice_from_def Let_def)
  from lo hi have len: "int (length (take (nat (currentIndex s + 1)) (operations s))) =
      currentIndex s + 1"
    by simp
  from dom kept len show "operations (snd (addOperation opn now s)) =
      take (nat (currentIndex s + 1)) (operations s)
        @ [\<lparr>payload = opn, op_id = currentIndex s + 1, timestamp = now\<rparr>]"
    by (simp add: addOperation_def Let_def)
  from dom kept len show "currentIndex (snd (addOperation opn now s)) =
      int (length (operations (snd (addOperation opn now s)))) - 1"
    by (simp add: addOperation_def Let_def)
  from dom kept len show "fst (addOperation opn now s) = currentIndex s + 1"
    by (simp add: addOperation_def Let_def)
next
  show "let s0 = \<lparr>roomId = r, operations = [A, B, C], currentIndex = 2\<rparr>;
            s1 = snd (undo s0);
            s2 = snd (undo s1);
            s3 = snd (addOperation D t s2)
        in operations s3 = [A, \<lparr>payload = D, op_id = 1, timestamp = t\<rparr>] \<and> currentIndex s3 = 1"
    by (simp add: addOperation_def js_splice_from_def undo_def Let_def)
qed

theorem addOperation_truncates_future_witness:
  "(let s = \<lparr>roomId = ''r'',
             operations = [\<lparr>payload = ''A'', op_id = 0, timestamp = 10\<rparr>,
                           \<lparr>payload = ''B'', op_id = 1, timestamp = 20\<rparr>,
                           \<lparr>payload = ''C'', op_id = 2, timestamp = 30\<rparr>],
             currentIndex = 0\<rparr>
    in index_bounds s \<and> currentIndex s < int (length (operations s)) - 1 \<and>
       operations (snd (addOperation ''D'' 40 s)) =
         [\<lparr>payload = ''A'', op_id = 0, timestamp = 10\<rparr>,
          \<lparr>payload = ''D'', op_id = 1, timestamp = 40\<rparr>] \<and>
       currentIndex (snd (addOperation ''D'' 40 s)) = 1 \<and>
       fst (addOperation ''D'' 40 s) = 1)"
  using addOperation_truncates_future
    [THEN conjunct1,
     of "\<lparr>roomId = ''r'',
          operations = [\<lparr>payload = ''A'', op_id = 0, timestamp = 10\<rparr>,
                        \<lparr>payload = ''B'', op_id = 1, timestamp = 20\<rparr>,
                        \<lparr>payload = ''C'', op_id = 2, timestamp = 30\<rparr>],
          currentIndex = 0\<rparr>" "''D''" 40]
  by (simp add: index_bounds_def Let_def)

subsection \<open>Undo and redo\<close>

text \<open>
  C3: on a log whose index is within its domain and at least 0, \<open>undo\<close> succeeds, the
  \<open>redo\<close> that follows it succeeds, both return the operation stored at the index the log
  had before the undo, and after the two calls the index and the operations are what they
  were before; the undo alone leaves the operations as they were.
\<close>

theorem undo_redo_round_trip:
  assumes "index_bounds s" and "0 \<le> currentIndex s"
  shows "map_option operation (fst (undo s)) =
           Some (Some (operations s ! nat (currentIndex s))) \<and>
         map_option operation (fst (redo (snd (undo s)))) =
           Some (Some (operations s ! nat (currentIndex s))) \<and>
         operations (snd (undo s)) = operations s \<and>
         currentIndex (snd (redo (snd (undo s)))) = currentIndex s \<and>
         operations (snd (redo (snd (undo s)))) = operations s"
  using assms
  by (auto simp: index_bounds_def undo_def redo_def js_index_def Let_def)

theorem undo_redo_round_trip_witness:
  "(let s = \<lparr>roomId = ''r'',
             operations = [\<lparr>payload = ''A'', op_id = 0, timestamp = 10\<rparr>,
                           \<lparr>payload = ''B'', op_id = 1, timestamp = 20\<rparr>],
             currentIndex = 1\<rparr>
    in index_bounds s \<and> 0 \<le> currentIndex s \<and>
       map_option operation (fst (undo s)) =
         Some (Some \<lparr>payload = ''B'', op_id = 1, timestamp = 20\<rparr>) \<and>
       map_option operation (fst (redo (snd (undo s)))) =
         Some (Some \<lparr>payload = ''B'', op_id = 1, timestamp = 20\<rparr>) \<and>
       currentIndex (snd (redo (snd (undo s)))) = 1 \<and>
       operations (snd (redo (snd (undo s)))) = operations s)"
  using undo_redo_round_trip
    [of "\<lparr>roomId = ''r'',
          operations = [\<lparr>payload = ''A'', op_id = 0, timestamp = 10\<rparr>,
                        \<lparr>payload = ''B'', op_id = 1, timestamp = 20\<rparr>],
          currentIndex = 1\<rparr>"]
  by (simp add: index_bounds_def Let_def)

text \<open>
  C4: on a log whose index is within its domain, \<open>undo\<close> returns nothing exactly when the
  index is below 0, and changes nothing then; otherwise it returns the operation stored at
  the index together with the index minus one, which becomes the index, and the operations
  stay as they are. \<open>redo\<close> returns nothing exactly when the index is at or beyond the last
  position, and changes nothing then; otherwise the index grows by one and the operation at
  the new index is returned together with the new index.
\<close>

theorem undo_redo_contract:
  assumes "index_bounds s"
  shows "(fst (undo s) = None \<longleftrightarrow> currentIndex s < 0) \<and>
         undo s =
           (if currentIndex s < 0 then (None, s)
            else (Some \<lparr>rtype = ''undo'',
                         operation = Some (operations s ! nat (currentIndex s)),
                         newIndex = currentIndex s - 1\<rparr>,
                  s\<lparr>currentIndex := currentIndex s - 1\<rparr>)) \<and>
         (fst (redo s) = None \<longleftrightarrow> currentIndex s \<ge> int (length (operations s)) - 1) \<and>
         redo s =
           (if currentIndex s \<ge> int (length (operations s)) - 1 then (None, s)
            else (Some \<lparr>rtype = ''redo'',
                         operation = Some (operations s ! nat (currentIndex s + 1)),
                         newIndex = currentIndex s + 1\<rparr>,
                  s\<lparr>currentIndex := currentIndex s + 1\<rparr>))"
  using assms
  by (auto simp: index_bounds_def undo_def redo_def js_index_def Let_def)

theorem undo_redo_contract_witness:
  "(let s = \<lparr>roomId = ''r'',
             operations = [\<lparr>payload = ''A'', op_id = 0, timestamp = 10\<rparr>,
                           \<lparr>payload = ''B'', op_id = 1, timestamp = 20\<rparr>],
             currentIndex = 0\<rparr>
    in index_bounds s \<and>
       undo s = (Some \<lparr>rtype = ''undo'',
                       operation = Some \<lparr>payload = ''A'', op_id = 0, timestamp = 10\<rparr>,
                       newIndex = -1\<rparr>,
                 s\<lparr>currentIndex := -1\<rparr>) \<and>
       redo s = (Some \<lparr>rtype = ''redo'',
                       operation = Some \<lparr>payload = ''B'', op_id = 1, timestamp = 20\<rparr>,
                       newIndex = 1\<rparr>,
                 s\<lparr>currentIndex := 1\<rparr>))"
  using undo_redo_contract
    [of "\<lparr>roomId = ''r'',
          operations = [\<lparr>payload = ''A'', op_id = 0, timestamp = 10\<rparr>,
                        \<lparr>payload = ''B'', op_id = 1, timestamp = 20\<rparr>],
          currentIndex = 0\<rparr>"]
  by (simp add: index_bounds_def Let_def)

subsection \<open>The snapshot\<close>

text \<open>
  C5: on a log whose index is within its domain, \<open>getFullState\<close> returns the operations at
  the positions 0 to \<open>currentIndex\<close>, in order, and \<open>currentIndex\<close>, and leaves the log as
  it was; with the index at \<open>-1\<close> the returned operations are empty.
\<close>

theorem getFullState_active_slice:
  assumes "index_bounds s"
  shows "getFullState s =
           (\<lparr>fs_operations = take (nat (currentIndex s + 1)) (operations s),
             fs_currentIndex = currentIndex s\<rparr>, s) \<and>
         fs_operations (fst (getFullState (s\<lparr>currentIndex := -1\<rparr>))) = []"
  using assms
  by (auto simp: index_bounds_def getFullState_def getActiveOperations_def js_slice_to_def
      Let_def)

theorem getFullState_active_slice_witness:
  "(let s = \<lparr>roomId = ''r'',
             operations = [\<lparr>payload = ''A'', op_id = 0, timestamp = 10\<rparr>,
                           \<lparr>payload = ''B'', op_id = 1, timestamp = 20\<rparr>,
                           \<lparr>payload = ''C'', op_id = 2, timestamp = 30\<rparr>],
             currentIndex = 1\<rparr>
    in index_bounds s \<and>
       getFullState s =
         (\<lparr>fs_operations = [\<lparr>payload = ''A'', op_id = 0, timestamp = 10\<rparr>,
                             \<lparr>payload = ''B'', op_id = 1, timestamp = 20\<rparr>],
           fs_currentIndex = 1\<rparr>, s))"
  using getFullState_active_slice
    [of "\<lparr>roomId = ''r'',
          operations = [\<lparr>payload = ''A'', op_id = 0, timestamp = 10\<rparr>,
                        \<lparr>payload = ''B'', op_id = 1, timestamp = 20\<rparr>,
                        \<lparr>payload = ''C'', op_id = 2, timestamp = 30\<rparr>],
          currentIndex = 1\<rparr>"]
  by (simp add: index_bounds_def Let_def)

subsection \<open>Operation ids\<close>

lemma map_ids_take:
  assumes "map op_id xs = map int [0..<length xs]"
  shows "map op_id (take k xs) = map int [0..<length (take k xs)]"
proof -
  have "map op_id (take k xs) = take k (map int [0..<length xs])"
    using assms by (simp add: take_map [symmetric])
  also have "\<dots> = map int [0..<min k (length xs)]"
    by (simp add: take_map min_def)
  finally show ?thesis by (simp add: min.commute)
qed

lemma addOperation_ids:
  "ids_are_positions s \<Longrightarrow> ids_are_positions (snd (addOperation opn now s))"
  by (simp add: ids_are_positions_def addOperation_def js_splice_from_def Let_def map_ids_take)

lemma step_ids: "ids_are_positions s \<Longrightarrow> ids_are_positions (step c s)"
proof (cases c)
  case (AddOperation opn now)
  assume "ids_are_positions s"
  with AddOperation show ?thesis by (simp add: addOperation_ids)
qed (simp_all add: ids_are_positions_def undo_def redo_def clear_def Let_def)

lemma run_ids: "ids_are_positions s \<Longrightarrow> ids_are_positions (run cs s)"
  unfolding run_def by (induction cs arbitrary: s) (simp_all add: step_ids)

text \<open>
  What the position-based id does give: in every log reached from the constructor the ids
  of the stored operations are their positions, hence distinct and increasing along the log.
\<close>

lemma reachable_ids_are_positions:
  "map op_id (operations (run cs (new_DrawingState r))) =
     map int [0..<length (operations (run cs (new_DrawingState r)))]"
  using run_ids [of "new_DrawingState r" cs]
  by (simp add: ids_are_positions_def new_DrawingState_def)

text \<open>
  C6: the ids returned by \<open>addOperation\<close> are not strictly increasing and not unique over
  the life of a log. On a fresh log, adding \<open>A\<close> returns 0 and adding \<open>B\<close> returns 1; after
  an undo, which hands out \<open>B\<close> with its id 1, adding \<open>C\<close> returns 1 again. After \<open>clear\<close>
  the next id is 0 again.
\<close>

theorem addOperation_id_reused:
  "(let s0 = new_DrawingState ''r'';
        (i1, s1) = addOperation ''A'' 10 s0;
        (i2, s2) = addOperation ''B'' 20 s1;
        (u, s3) = undo s2;
        (i3, s4) = addOperation ''C'' 30 s3;
        (i4, s5) = addOperation ''E'' 40 (clear s4)
    in i1 = 0 \<and> i2 = 1 \<and> i3 = 1 \<and> i4 = 0 \<and>
       map_option operation u = Some (Some \<lparr>payload = ''B'', op_id = 1, timestamp = 20\<rparr>) \<and>
       operations s4 = [\<lparr>payload = ''A'', op_id = 0, timestamp = 10\<rparr>,
                        \<lparr>payload = ''C'', op_id = 1, timestamp = 30\<rparr>])"
  by (simp add: new_DrawingState_def addOperation_def undo_def clear_def js_index_def
      js_splice_from_def Let_def)

section \<open>Properties of the room manager\<close>

subsection \<open>Unknown rooms\<close>

text \<open>
  C7, as stated, fails: on a manager without the room \<open>r\<close>, \<open>removeUserFromRoom\<close> leaves
  the manager without it, and \<open>getRoomUsers\<close> and \<open>getUser\<close> answer the empty list and
  \<open>null\<close> from the manager as it is.
\<close>

theorem unknown_room_not_fabricated:
  "rooms (removeUserFromRoom 0 ''r'' ''s'' (new_RoomManager :: unit RoomManager)) ''r'' = None \<and>
   getRoomUsers ''r'' (new_RoomManager :: unit RoomManager) = [] \<and>
   getUser ''r'' ''s'' (new_RoomManager :: unit RoomManager) = JsNull"
  by (simp add: removeUserFromRoom_def new_RoomManager_def getRoomUsers_def getUser_def)

text \<open>
  C7, amended: for a room id that is not in the manager, \<open>getRoom\<close>, \<open>getDrawingState\<close>
  and \<open>addUserToRoom\<close> create the room, with an empty log and, for \<open>addUserToRoom\<close>, the
  new user as its roster; \<open>removeUserFromRoom\<close> and \<open>updateUserCursor\<close> leave the manager
  as it is, \<open>getUser\<close> answers \<open>null\<close> and \<open>getRoomUsers\<close> the empty list. No call has
  an error result.
\<close>

theorem unknown_room_lookups:
  assumes "rooms m rid = None"
  shows "getRoom now rid m =
           (\<lparr>room_id = rid, users = [], drawingState = new_DrawingState rid, createdAt = now\<rparr>,
            m\<lparr>rooms := (rooms m)(rid \<mapsto>
                 \<lparr>room_id = rid, users = [], drawingState = new_DrawingState rid,
                  createdAt = now\<rparr>)\<rparr>) \<and>
         getDrawingState now rid m = (new_DrawingState rid, snd (getRoom now rid m)) \<and>
         rooms (snd (addUserToRoom now rid socketId uname m)) rid =
           Some \<lparr>room_id = rid,
                 users = [(socketId, fst (addUserToRoom now rid socketId uname m))],
                 drawingState = new_DrawingState rid, createdAt = now\<rparr> \<and>
         removeUserFromRoom now rid socketId m = m \<and>
         updateUserCursor rid socketId c m = m \<and>
         getUser rid socketId m = JsNull \<and>
         getRoomUsers rid m = []"
  using assms
  by (simp add: getRoom_def getDrawingState_def addUserToRoom_def removeUserFromRoom_def
      getUser_def getRoomUsers_def updateUserCursor_def Let_def)

theorem unknown_room_lookups_witness:
  "rooms (new_RoomManager :: unit RoomManager) ''r'' = None \<and>
   rooms (snd (getRoom 5 ''r'' (new_RoomManager :: unit RoomManager))) ''r'' =
     Some \<lparr>room_id = ''r'', users = [], drawingState = new_DrawingState ''r'', createdAt = 5\<rparr> \<and>
   fst (getDrawingState 5 ''r'' (new_RoomManager :: unit RoomManager)) = new_DrawingState ''r'' \<and>
   removeUserFromRoom 5 ''r'' ''s'' (new_RoomManager :: unit RoomManager) = new_RoomManager \<and>
   getUser ''r'' ''s'' (new_RoomManager :: unit RoomManager) = JsNull \<and>
   getRoomUsers ''r'' (new_RoomManager :: unit RoomManager) = []"
  using unknown_room_lookups [of "new_RoomManager :: unit RoomManager" "''r''" 5 "''s''"]
  by (simp add: new_RoomManager_def)

subsection \<open>Empty rooms and the clean-up callback\<close>

text \<open>
  When no callback runs between the two calls, a room that loses a session and is joined
  again keeps its log.
\<close>

lemma rejoin_keeps_log:
  assumes "rooms m rid = Some room"
  shows "map_option drawingState
           (rooms (snd (addUserToRoom t2 rid s2 uname (removeUserFromRoom t1 rid s1 m))) rid) =
         Some (drawingState room)"
  using assms
  by (simp add: addUserToRoom_def getRoom_def removeUserFromRoom_def Let_def)

text \<open>
  The callback reads the roster the room has when it runs, and deletes the room only when
  that roster is empty.
\<close>

lemma cleanupCallback_rooms:
  "rooms (cleanupCallback rid m) =
     (case rooms m rid of
        None \<Rightarrow> rooms m
      | Some room \<Rightarrow> if users room = [] then (rooms m)(rid := None) else rooms m)"
  by (simp add: cleanupCallback_def map_size_def split: option.splits)

text \<open>
  C8: the survival of a room that is joined again within the five minutes does not hold on
  this code, because the callback cannot tell which emptying armed it. Times are in
  milliseconds. Session \<open>s1\<close> joins room \<open>r\<close> at 0 and a stroke is stored; \<open>s1\<close> leaves at
  1000, which arms a callback for 301000; \<open>s2\<close> joins at 2000 and leaves at 290000, which
  arms a second callback for 590000. At 301000 the first callback runs, finds the roster
  empty and deletes the room. Session \<open>s3\<close> joins at 310000, twenty seconds after the last
  session left: the room it gets is a new one, with an empty log.
\<close>

theorem stale_timeout_deletes_rejoined_room:
  "(let m0 = (new_RoomManager :: string RoomManager);
        m1 = snd (addUserToRoom 0 ''r'' ''s1'' None m0);
        m2 = snd (onDrawingState 0 ''r'' (addOperation ''stroke'' 0) m1);
        m3 = removeUserFromRoom 1000 ''r'' ''s1'' m2;
        m4 = snd (addUserToRoom 2000 ''r'' ''s2'' None m3);
        m5 = removeUserFromRoom 290000 ''r'' ''s2'' m4
    in map_option drawingState (rooms m5 ''r'') =
         Some \<lparr>roomId = ''r'',
               operations = [\<lparr>payload = ''stroke'', op_id = 0, timestamp = 0\<rparr>],
               currentIndex = 0\<rparr> \<and>
       pendingTimeouts m5 = [(301000, ''r''), (590000, ''r'')] \<and>
       (case fireTimeout 301000 m5 of
          None \<Rightarrow> False
        | Some m6 \<Rightarrow>
            rooms m6 ''r'' = None \<and>
            310000 < (290000 :: int) + 5 * 60 * 1000 \<and>
            map_option drawingState
              (rooms (snd (addUserToRoom 310000 ''r'' ''s3'' None m6)) ''r'') =
              Some \<lparr>roomId = ''r'', operations = [], currentIndex = -1\<rparr>))"
  by (simp add: new_RoomManager_def addUserToRoom_def getRoom_def removeUserFromRoom_def
      onDrawingState_def addOperation_def fireTimeout_def cleanupCallback_def
      new_DrawingState_def map_size_def map_delete_def Let_def)

subsection \<open>Colours and default names\<close>

text \<open>
  C9: the user returned by \<open>addUserToRoom\<close> has the colour at position
  (size of the room's roster before the call) modulo 10 of the palette of 10 colours, whatever
  name is given; when no name is given, or the empty one, the name of the returned user is
  \<open>User\<close> followed by that size plus one in decimal; in a new manager it is \<open>User1\<close>.
\<close>

theorem addUserToRoom_color_and_name:
  "color (fst (addUserToRoom now rid socketId uname m)) =
     userColors ! (rosterSize m rid mod length userColors) \<and>
   length userColors = 10 \<and>
   username (fst (addUserToRoom now rid socketId None m)) =
     ''User'' @ string_of_nat (rosterSize m rid + 1) \<and>
   username (fst (addUserToRoom now rid socketId (Some []) m)) =
     ''User'' @ string_of_nat (rosterSize m rid + 1) \<and>
   username (fst (addUserToRoom now rid socketId None (new_RoomManager :: 'a RoomManager))) =
     ''User1''"
proof -
  have "string_of_nat (Suc 0) = ''1''"
    by (simp add: string_of_nat.simps [of "Suc 0"] digit_def)
  then show ?thesis
    by (simp add: addUserToRoom_def getRoom_def rosterSize_def userColors_def map_size_def
        Let_def new_RoomManager_def split: option.splits)
qed

text \<open>
  C10: colours are not unique among the members of a room. After \<open>A\<close> and \<open>B\<close> join,
  \<open>A\<close> leaves and \<open>C\<close> joins, the roster is \<open>B\<close>, \<open>C\<close>, and both have the second colour of
  the palette: each joined a roster of size 1.
\<close>

theorem colors_not_unique:
  "(let m0 = (new_RoomManager :: unit RoomManager);
        m1 = snd (addUserToRoom 0 ''room'' ''A'' None m0);
        m2 = snd (addUserToRoom 1 ''room'' ''B'' None m1);
        m3 = removeUserFromRoom 2 ''room'' ''A'' m2;
        m4 = snd (addUserToRoom 3 ''room'' ''C'' None m3)
    in map (\<lambda>u. (user_id u, color u)) (getRoomUsers ''room'' m4) =
         [(''B'', ''#4ECDC4''), (''C'', ''#4ECDC4'')] \<and>
       userColors ! 1 = ''#4ECDC4'')"
  by (simp add: new_RoomManager_def addUserToRoom_def getRoom_def removeUserFromRoom_def
      getRoomUsers_def map_size_def map_delete_def map_values_def userColors_def Let_def)

end
